theory Spec2Isabelle
  imports Complex_Main
begin

section \<open>Vectors and the object store\<close>

text \<open>
  The game keeps its coordinates in \<open>pygame.math.Vector2\<close> objects. Their components
  are modelled as real numbers (the rounding of the machine's doubles is left out).
  A \<open>Vector2\<close> is a mutable object: \<open>v += w\<close> changes \<open>v\<close> in place, and the
  constructors of the sprites store the very object they are given. Positions are
  therefore references into a store of vectors; velocities are never shared between
  two sprites and are kept by value.
\<close>

record Vector2 =
  vx :: real
  vy :: real

definition vadd :: "Vector2 \<Rightarrow> Vector2 \<Rightarrow> Vector2" where
  "vadd a b = \<lparr>vx = vx a + vx b, vy = vy a + vy b\<rparr>"

definition vsub :: "Vector2 \<Rightarrow> Vector2 \<Rightarrow> Vector2" where
  "vsub a b = \<lparr>vx = vx a - vx b, vy = vy a - vy b\<rparr>"

definition vscale :: "Vector2 \<Rightarrow> real \<Rightarrow> Vector2" where
  "vscale a k = \<lparr>vx = vx a * k, vy = vy a * k\<rparr>"

definition vlength :: "Vector2 \<Rightarrow> real" where
  "vlength a = sqrt (vx a * vx a + vy a * vy a)"

text \<open>\<open>Vector2.from_polar((r, phi))\<close>, the angle in degrees.\<close>

definition from_polar :: "real \<Rightarrow> real \<Rightarrow> Vector2" where
  "from_polar r phi = \<lparr>vx = r * cos (phi * pi / 180), vy = r * sin (phi * pi / 180)\<rparr>"

type_synonym ref = nat

record Store =
  cells :: "ref \<Rightarrow> Vector2"
  next_ref :: ref

text \<open>A fresh \<open>Vector2\<close> object.\<close>

definition new_vec :: "Vector2 \<Rightarrow> Store \<Rightarrow> ref \<times> Store" where
  "new_vec v h = (next_ref h, h\<lparr>cells := (cells h)(next_ref h := v), next_ref := Suc (next_ref h)\<rparr>)"

text \<open>\<open>p += v\<close> on a \<open>Vector2\<close>: the object \<open>p\<close> itself is changed.\<close>

definition iadd :: "ref \<Rightarrow> Vector2 \<Rightarrow> Store \<Rightarrow> Store" where
  "iadd p v h = h\<lparr>cells := (cells h)(p := vadd (cells h p) v)\<rparr>"

text \<open>Python's \<open>%\<close> on floats (the result has the sign of the divisor) and \<open>int()\<close>.\<close>

definition pymod :: "real \<Rightarrow> real \<Rightarrow> real" where
  "pymod a m = a - m * of_int \<lfloor>a / m\<rfloor>"

definition trunc :: "real \<Rightarrow> int" where
  "trunc a = (if 0 \<le> a then \<lfloor>a\<rfloor> else \<lceil>a\<rceil>)"

definition WIDTH :: int where "WIDTH = 800"
definition HEIGHT :: int where "HEIGHT = 600"

section \<open>Sprite\<close>

text \<open>
  Of a \<open>Surface\<close> only its size matters here, of a \<open>Rect\<close> its four integers
  (pygame truncates the floats it is given).
\<close>

record Surface =
  surf_w :: nat
  surf_h :: nat

record Rect =
  rect_x :: int
  rect_y :: int
  rect_w :: int
  rect_h :: int

record Sprite =
  original_image :: Surface
  position :: ref
  frames :: "Rect list"
  current_frame :: int
  rotate :: int
  velocity :: Vector2
  wrap :: bool
  radius :: real
  is_dead :: bool
  drotate :: int
  scale :: real

text \<open>
  \<open>create_image\<close> cuts the current frame out of the sheet, scales and rotates it. The
  pixels are not modelled; what the method changes besides them is the radius, which
  becomes half the width of the scaled frame when the scale is not 1.
\<close>

definition create_image :: "'a Sprite_scheme \<Rightarrow> 'a Sprite_scheme" where
  "create_image s =
     (let w = rect_w (frames s ! nat (current_frame s))
      in if scale s \<noteq> 1
         then s\<lparr>radius := real_of_int (trunc (real_of_int w * scale s)) / 2\<rparr>
         else s)"

text \<open>
  \<open>Sprite.__init__(image, position, frame_count)\<close>. The position object is stored as
  it is given (no wrap, no copy). The callers pass 1, 2 or 24 frames.
\<close>

definition Sprite_init :: "Surface \<Rightarrow> ref \<Rightarrow> nat \<Rightarrow> Sprite" where
  "Sprite_init img pos frame_count =
     (let frame_width = real (surf_w img) / real frame_count;
          frame_height = int (surf_h img)
      in create_image
           \<lparr>original_image = img,
            position = pos,
            frames = map (\<lambda>i. \<lparr>rect_x = trunc (real i * frame_width), rect_y = 0,
                               rect_w = trunc frame_width, rect_h = frame_height\<rparr>)
                         [0..<frame_count],
            current_frame = 0,
            rotate = 0,
            velocity = \<lparr>vx = 0, vy = 0\<rparr>,
            wrap = False,
            radius = frame_width / 2,
            is_dead = False,
            drotate = 0,
            scale = 1\<rparr>)"

definition set_current_frame :: "int \<Rightarrow> 'a Sprite_scheme \<Rightarrow> 'a Sprite_scheme" where
  "set_current_frame v s =
     create_image (s\<lparr>current_frame := max 0 (min (int (length (frames s)) - 1) v)\<rparr>)"

definition set_rotate :: "int \<Rightarrow> 'a Sprite_scheme \<Rightarrow> 'a Sprite_scheme" where
  "set_rotate v s = create_image (s\<lparr>rotate := v mod 360\<rparr>)"

definition set_scale :: "real \<Rightarrow> 'a Sprite_scheme \<Rightarrow> 'a Sprite_scheme" where
  "set_scale v s = create_image (s\<lparr>scale := v\<rparr>)"

text \<open>
  \<open>set_position(value)\<close>: with wrap a new vector is built from the wrapped
  coordinates, without wrap the object \<open>value\<close> itself is stored.
\<close>

definition set_position :: "ref \<Rightarrow> 'a Sprite_scheme \<Rightarrow> Store \<Rightarrow> 'a Sprite_scheme \<times> Store" where
  "set_position v s h =
     (if wrap s
      then let x = pymod (vx (cells h v) + real_of_int WIDTH) (real_of_int WIDTH);
               y = pymod (vy (cells h v) + real_of_int HEIGHT) (real_of_int HEIGHT);
               (r, h') = new_vec \<lparr>vx = x, vy = y\<rparr> h
           in (s\<lparr>position := r\<rparr>, h')
      else (s\<lparr>position := v\<rparr>, h))"

text \<open>\<open>self.is_circle_collide(other)\<close>\<close>

definition is_circle_collide :: "Store \<Rightarrow> 'a Sprite_scheme \<Rightarrow> 'b Sprite_scheme \<Rightarrow> bool" where
  "is_circle_collide h s other \<longleftrightarrow>
     vlength (vsub (cells h (position s)) (cells h (position other))) < radius s + radius other"

text \<open>
  \<open>Sprite.update\<close>: \<open>self.position += self.velocity\<close> first adds the velocity to the
  position object in place and then hands that object to the setter;
  \<open>self.rotate += self.drotate\<close> goes through \<open>set_rotate\<close>.
\<close>

definition Sprite_update :: "'a Sprite_scheme \<Rightarrow> Store \<Rightarrow> 'a Sprite_scheme \<times> Store" where
  "Sprite_update s h =
     (let p = position s;
          h1 = iadd p (velocity s) h;
          (s1, h2) = set_position p s h1
      in (set_rotate (rotate s1 + drotate s1) s1, h2))"


section \<open>Shot and Explosion\<close>

record Shot = Sprite +
  time_to_live :: int

definition MAX_TIME_TO_LIVE :: int where "MAX_TIME_TO_LIVE = 80"

definition Shot_init :: "Surface \<Rightarrow> ref \<Rightarrow> Vector2 \<Rightarrow> Shot" where
  "Shot_init img pos vel =
     Sprite.extend (Sprite_init img pos 1) (Shot.fields MAX_TIME_TO_LIVE)
       \<lparr>velocity := vel, wrap := True\<rparr>"

definition Shot_update :: "Shot \<Rightarrow> Store \<Rightarrow> Shot \<times> Store" where
  "Shot_update s h =
     (let s1 = (if time_to_live s > 0
                then let s' = s\<lparr>time_to_live := time_to_live s - 1\<rparr>
                     in if time_to_live s' = 0 then s'\<lparr>is_dead := True\<rparr> else s'
                else s)
      in Sprite_update s1 h)"

type_synonym Explosion = Sprite

definition Explosion_init :: "Surface \<Rightarrow> ref \<Rightarrow> Explosion" where
  "Explosion_init img pos = Sprite_init img pos 24"

definition Explosion_update :: "Explosion \<Rightarrow> Store \<Rightarrow> Explosion \<times> Store" where
  "Explosion_update e h =
     (let e1 = set_current_frame (current_frame e + 1) e;
          e2 = (if current_frame e1 = 23 then e1\<lparr>is_dead := True\<rparr> else e1)
      in Sprite_update e2 h)"

section \<open>SoundManager\<close>

text \<open>
  The mixer is outside the program; the calls made to it are recorded in the order
  they are made.
\<close>

datatype mixer_call = Shot_play | Explosion_play | Thrust_play | Thrust_stop

record SoundManager =
  playthrust :: bool
  calls :: "mixer_call list"

definition play_shot :: "SoundManager \<Rightarrow> SoundManager" where
  "play_shot m = m\<lparr>calls := calls m @ [Shot_play]\<rparr>"

definition play_explosion :: "SoundManager \<Rightarrow> SoundManager" where
  "play_explosion m = m\<lparr>calls := calls m @ [Explosion_play]\<rparr>"

definition play_thrust :: "SoundManager \<Rightarrow> SoundManager" where
  "play_thrust m =
     (if \<not> playthrust m then m\<lparr>calls := calls m @ [Thrust_play], playthrust := True\<rparr> else m)"

definition stop_thrust :: "SoundManager \<Rightarrow> SoundManager" where
  "stop_thrust m =
     (if playthrust m then m\<lparr>calls := calls m @ [Thrust_stop], playthrust := False\<rparr> else m)"

section \<open>Ship\<close>

record Ship = Sprite +
  thrust :: bool

definition Ship_init :: "Surface \<Rightarrow> ref \<Rightarrow> Ship" where
  "Ship_init img pos =
     Sprite.extend (Sprite_init img pos 2) (Ship.fields False) \<lparr>wrap := True\<rparr>"

definition get_heading :: "Ship \<Rightarrow> Vector2" where
  "get_heading s = from_polar 1 (- real_of_int (rotate s))"

definition Ship_update :: "Ship \<Rightarrow> Store \<Rightarrow> SoundManager \<Rightarrow> Ship \<times> Store \<times> SoundManager" where
  "Ship_update s h sm =
     (let (s1, sm1) =
            (if thrust s
             then let s' = set_current_frame 1 s
                  in (s'\<lparr>velocity := vadd (velocity s') (vscale (get_heading s') (1 / 10))\<rparr>,
                      play_thrust sm)
             else (set_current_frame 0 s, stop_thrust sm));
          s2 = s1\<lparr>velocity := vscale (velocity s1) (99 / 100)\<rparr>;
          (s3, h') = Sprite_update s2 h
      in (s3, h', sm1))"

section \<open>Managers\<close>

record 'a Manager =
  mgr_image :: Surface
  objects :: "'a list"

text \<open>
  \<open>self.objects.remove(self.objects[i])\<close>: the sprites define no equality, so
  \<open>remove\<close> compares by identity and takes out the object at index \<open>i\<close>.
\<close>

definition remove_at :: "nat \<Rightarrow> 'a list \<Rightarrow> 'a list" where
  "remove_at i xs = take i xs @ drop (Suc i) xs"

text \<open>
  The loop of \<open>Manager.update\<close>, from the last index down; the counter \<open>k\<close> is
  \<open>i + 1\<close>, so that the loop ends at \<open>k = 0\<close>. It starts at \<open>len(self.objects)\<close>, and
  every index it reads is in range.
\<close>

fun update_loop ::
  "('a Sprite_scheme \<Rightarrow> Store \<Rightarrow> 'a Sprite_scheme \<times> Store) \<Rightarrow> nat \<Rightarrow>
     'a Sprite_scheme list \<Rightarrow> Store \<Rightarrow> 'a Sprite_scheme list \<times> Store" where
  "update_loop upd 0 xs h = (xs, h)"
| "update_loop upd (Suc i) xs h =
     (let (x', h') = upd (xs ! i) h;
          xs' = xs[i := x']
      in update_loop upd i (if is_dead x' then remove_at i xs' else xs') h')"

definition Manager_update ::
  "('a Sprite_scheme \<Rightarrow> Store \<Rightarrow> 'a Sprite_scheme \<times> Store) \<Rightarrow>
     ('a Sprite_scheme, 'b) Manager_scheme \<Rightarrow> Store \<Rightarrow>
     ('a Sprite_scheme, 'b) Manager_scheme \<times> Store" where
  "Manager_update upd m h =
     (let (xs, h') = update_loop upd (length (objects m)) (objects m) h
      in (m\<lparr>objects := xs\<rparr>, h'))"

subsection \<open>ShotManager\<close>

record ShotManager = "Shot Manager" +
  shot_delay :: int

definition MAX_SHOT_DELAY :: int where "MAX_SHOT_DELAY = 15"

definition ShotManager_update :: "ShotManager \<Rightarrow> Store \<Rightarrow> ShotManager \<times> Store" where
  "ShotManager_update m h =
     Manager_update Shot_update
       (if shot_delay m > 0 then m\<lparr>shot_delay := shot_delay m - 1\<rparr> else m) h"

definition add_shot ::
  "ref \<Rightarrow> Vector2 \<Rightarrow> ShotManager \<Rightarrow> SoundManager \<Rightarrow> ShotManager \<times> SoundManager" where
  "add_shot pos vel m sm =
     (if shot_delay m = 0
      then (m\<lparr>objects := objects m @ [Shot_init (mgr_image m) pos vel],
              shot_delay := MAX_SHOT_DELAY\<rparr>,
            play_shot sm)
      else (m, sm))"

subsection \<open>AsteroidManager\<close>

type_synonym Asteroid = Sprite

definition Asteroid_init :: "Surface \<Rightarrow> ref \<Rightarrow> Vector2 \<Rightarrow> int \<Rightarrow> real \<Rightarrow> Asteroid" where
  "Asteroid_init img pos vel drot sc =
     set_scale sc ((Sprite_init img pos 1)\<lparr>velocity := vel, wrap := True, drotate := drot\<rparr>)"

text \<open>
  The generator \<open>rnd\<close> is a stream of numbers that \<open>randint\<close> consumes from the
  front; \<open>randint(a, b)\<close> lies in \<open>a..b\<close>.
\<close>

record AsteroidManager = "Asteroid Manager" +
  rnd :: "nat \<Rightarrow> nat"

definition randint :: "int \<Rightarrow> int \<Rightarrow> (nat \<Rightarrow> nat) \<Rightarrow> int \<times> (nat \<Rightarrow> nat)" where
  "randint a b r = (a + int (r 0 mod nat (b - a + 1)), \<lambda>n. r (Suc n))"

definition add_asteroid ::
  "real \<Rightarrow> ref option \<Rightarrow> AsteroidManager \<Rightarrow> Store \<Rightarrow> AsteroidManager \<times> Store" where
  "add_asteroid sc position_opt m h =
     (let (pos, r1, h1) =
            (case position_opt of
               None \<Rightarrow>
                 let (x, ra) = randint 0 WIDTH (rnd m);
                     (y, rb) = randint 0 HEIGHT ra;
                     (p, h') = new_vec \<lparr>vx = real_of_int x, vy = real_of_int y\<rparr> h
                 in (p, rb, h')
             | Some p \<Rightarrow> (p, rnd m, h));
          (alfa, r2) = randint 0 360 r1;
          vel = from_polar 1 (real_of_int alfa);
          (rot, r3) = randint (- 10) 10 r2
      in (m\<lparr>objects := objects m @ [Asteroid_init (mgr_image m) pos vel rot sc], rnd := r3\<rparr>,
          h1))"

fun add_asteroids_loop :: "nat \<Rightarrow> AsteroidManager \<Rightarrow> Store \<Rightarrow> AsteroidManager \<times> Store" where
  "add_asteroids_loop 0 m h = (m, h)"
| "add_asteroids_loop (Suc n) m h =
     (let (m', h') = add_asteroid 1 None m h in add_asteroids_loop n m' h')"

text \<open>\<open>for _ in range(num)\<close>: no round when \<open>num\<close> is not positive.\<close>

definition add_asteroids :: "int \<Rightarrow> AsteroidManager \<Rightarrow> Store \<Rightarrow> AsteroidManager \<times> Store" where
  "add_asteroids num m h = add_asteroids_loop (nat num) m h"

subsection \<open>ExplosionManager\<close>

type_synonym ExplosionManager = "Explosion Manager"

definition add_explosion ::
  "ref \<Rightarrow> ExplosionManager \<Rightarrow> SoundManager \<Rightarrow> ExplosionManager \<times> SoundManager" where
  "add_explosion pos m sm =
     (m\<lparr>objects := objects m @ [Explosion_init (mgr_image m) pos]\<rparr>, play_explosion sm)"

section \<open>BgScroll\<close>

record BgScroll =
  bg_x :: real
  bg_dx :: real

definition BgScroll_update :: "BgScroll \<Rightarrow> BgScroll" where
  "BgScroll_update b =
     (let b1 = b\<lparr>bg_x := bg_x b + bg_dx b\<rparr>
      in if bg_x b1 > real_of_int WIDTH then b1\<lparr>bg_x := 0\<rparr> else b1)"

section \<open>Game\<close>

datatype GameState = GAME_MENU | GAME_PLAY

definition TEXT_WAIT :: int where "TEXT_WAIT = 30"
definition MAX_RESPAWN_TIME :: int where "MAX_RESPAWN_TIME = 250"

text \<open>The keys that \<open>pygame.key.get_pressed()\<close> reports and the game reads.\<close>

record Keys =
  K_SPACE :: bool
  K_LEFT :: bool
  K_RIGHT :: bool
  K_UP :: bool
  K_LCTRL :: bool

text \<open>
  The state of a \<open>Game\<close>, with the class attribute \<open>Game.sound_manager\<close> and the
  store of the \<open>Vector2\<close> objects.
\<close>

record Game =
  bgscroll1 :: BgScroll
  bgscroll2 :: BgScroll
  ship :: Ship
  shot_manager :: ShotManager
  asteroid_manager :: AsteroidManager
  explosion_manager :: ExplosionManager
  game_state :: GameState
  text_visible :: bool
  text_blink :: int
  level :: int
  lives :: int
  score :: int
  respawn_time :: int
  sound_manager :: SoundManager
  store :: Store

abbreviation shots :: "Game \<Rightarrow> Shot list" where
  "shots g \<equiv> objects (shot_manager g)"

abbreviation asteroids :: "Game \<Rightarrow> Asteroid list" where
  "asteroids g \<equiv> objects (asteroid_manager g)"

abbreviation explosions :: "Game \<Rightarrow> Explosion list" where
  "explosions g \<equiv> objects (explosion_manager g)"

text \<open>
  \<open>Game.__init__\<close>, given the sizes of the four sprite sheets and the generator.
\<close>

definition Game_init :: "Surface \<Rightarrow> Surface \<Rightarrow> Surface \<Rightarrow> Surface \<Rightarrow> (nat \<Rightarrow> nat) \<Rightarrow> Game" where
  "Game_init ship_img shot_img asteroid_img explosion_img r =
     (let (p, h) = new_vec \<lparr>vx = 100, vy = 100\<rparr> \<lparr>cells = (\<lambda>_. \<lparr>vx = 0, vy = 0\<rparr>), next_ref = 0\<rparr>
      in \<lparr>bgscroll1 = \<lparr>bg_x = 0, bg_dx = 1 / 2\<rparr>,
          bgscroll2 = \<lparr>bg_x = 0, bg_dx = 1\<rparr>,
          ship = (Ship_init ship_img p)\<lparr>is_dead := True\<rparr>,
          shot_manager = \<lparr>mgr_image = shot_img, objects = [], shot_delay = 0\<rparr>,
          asteroid_manager = \<lparr>mgr_image = asteroid_img, objects = [], rnd = r\<rparr>,
          explosion_manager = \<lparr>mgr_image = explosion_img, objects = []\<rparr>,
          game_state = GAME_MENU,
          text_visible = True,
          text_blink = 0,
          level = 0,
          lives = 0,
          score = 0,
          respawn_time = 0,
          sound_manager = \<lparr>playthrust = False, calls = []\<rparr>,
          store = h\<rparr>)"

text \<open>\<open>self.ship.position = Vector2(Game.WIDTH / 2, Game.HEIGHT / 2)\<close>\<close>

definition center_ship :: "Game \<Rightarrow> Game" where
  "center_ship g =
     (let (c, h1) = new_vec \<lparr>vx = real_of_int WIDTH / 2, vy = real_of_int HEIGHT / 2\<rparr> (store g);
          (s, h2) = set_position c (ship g) h1
      in g\<lparr>ship := s, store := h2\<rparr>)"

definition restart :: "Game \<Rightarrow> Game" where
  "restart g =
     (let g1 = center_ship g;
          g2 = g1\<lparr>ship := (ship g1)\<lparr>is_dead := False\<rparr>\<rparr>;
          (am, h) = add_asteroids 5 ((asteroid_manager g2)\<lparr>objects := []\<rparr>) (store g2)
      in g2\<lparr>asteroid_manager := am, store := h, level := 1, lives := 3, score := 0,
             game_state := GAME_PLAY\<rparr>)"

subsection \<open>chk\_collisions\<close>

text \<open>
  The body of the inner loop for the asteroid at index \<open>i\<close> and the shot at index
  \<open>j\<close>. The explosion and the two children are given the position object of the
  asteroid itself.
\<close>

definition shot_check :: "nat \<Rightarrow> nat \<Rightarrow> Game \<Rightarrow> Game" where
  "shot_check i j g =
     (let asteroid = asteroids g ! i;
          shot = shots g ! j
      in if \<not> is_dead asteroid \<and> \<not> is_dead shot \<and> is_circle_collide (store g) shot asteroid
         then
           let g1 = g\<lparr>shot_manager :=
                       (shot_manager g)\<lparr>objects := (shots g)[j := shot\<lparr>is_dead := True\<rparr>]\<rparr>\<rparr>;
               g2 = g1\<lparr>asteroid_manager :=
                        (asteroid_manager g1)\<lparr>objects :=
                           (asteroids g1)[i := asteroid\<lparr>is_dead := True\<rparr>]\<rparr>\<rparr>;
               (em, sm) = add_explosion (position asteroid) (explosion_manager g2) (sound_manager g2);
               g3 = g2\<lparr>explosion_manager := em, sound_manager := sm, score := score g2 + 1000\<rparr>
           in if scale asteroid > 1 / 2
              then
                let sc = (if scale asteroid = 1 then 3 / 4 else 1 / 2);
                    (am1, h1) = add_asteroid sc (Some (position asteroid)) (asteroid_manager g3) (store g3);
                    (am2, h2) = add_asteroid sc (Some (position asteroid)) am1 h1
                in g3\<lparr>asteroid_manager := am2, store := h2\<rparr>
              else g3
         else g)"

text \<open>The ship check that follows the inner loop, for the asteroid at index \<open>i\<close>.\<close>

definition ship_check :: "nat \<Rightarrow> Game \<Rightarrow> Game" where
  "ship_check i g =
     (let asteroid = asteroids g ! i
      in if \<not> is_dead asteroid \<and> \<not> is_dead (ship g) \<and> is_circle_collide (store g) (ship g) asteroid
         then
           let g1 = g\<lparr>lives := lives g - 1\<rparr>;
               g2 = g1\<lparr>ship := (ship g1)\<lparr>is_dead := True, thrust := False\<rparr>\<rparr>;
               (em, sm) = add_explosion (position (ship g2)) (explosion_manager g2) (sound_manager g2);
               g3 = g2\<lparr>explosion_manager := em, sound_manager := sm\<rparr>
           in if lives g3 = 0
              then g3\<lparr>game_state := GAME_MENU\<rparr>
              else g3\<lparr>respawn_time := MAX_RESPAWN_TIME\<rparr>
         else g)"

text \<open>
  \<open>for shot in self.shot_manager.objects\<close>, from index \<open>j\<close> on. A Python list
  iterator compares its index with the current length before every round.
\<close>

function shots_loop :: "nat \<Rightarrow> nat \<Rightarrow> Game \<Rightarrow> Game" where
  "shots_loop i j g =
     (if j < length (shots g) then shots_loop i (Suc j) (shot_check i j g) else g)"
  by pat_completeness auto

lemma length_shots_shot_check: "length (shots (shot_check i j g)) = length (shots g)"
  by (simp add: shot_check_def Let_def split: prod.splits)

termination shots_loop
  by (relation "measure (\<lambda>(i, j, g). length (shots g) - j)")
     (auto simp: length_shots_shot_check)

declare shots_loop.simps [simp del]

text \<open>
  \<open>for asteroid in self.asteroid_manager.objects\<close>, from index \<open>i\<close> on. The
  children that a hit appends to the list are visited later in the same pass. Every
  hit takes one live shot, which bounds the number of rounds.
\<close>

definition live_shots :: "Game \<Rightarrow> nat" where
  "live_shots g = length (filter (\<lambda>s. \<not> is_dead s) (shots g))"

lemma filter_kill:
  "j < length xs \<Longrightarrow> \<not> is_dead (xs ! j) \<Longrightarrow>
   Suc (length (filter (\<lambda>s. \<not> is_dead s) (xs[j := (xs ! j)\<lparr>is_dead := True\<rparr>]))) =
   length (filter (\<lambda>s. \<not> is_dead s) xs)"
proof (induction xs arbitrary: j)
  case Nil
  then show ?case by simp
next
  case (Cons x xs)
  then show ?case by (cases j) auto
qed

lemma shot_check_measure:
  assumes "j < length (shots g)"
  shows "2 * live_shots (shot_check i j g) + length (asteroids (shot_check i j g))
           \<le> 2 * live_shots g + length (asteroids g)"
    and "length (asteroids g) \<le> length (asteroids (shot_check i j g))"
  using assms filter_kill[of j "shots g"]
  by (auto simp: shot_check_def Let_def live_shots_def add_asteroid_def add_explosion_def
           split: prod.splits)

lemma shots_loop_measure:
  "2 * live_shots (shots_loop i j g) + length (asteroids (shots_loop i j g))
     \<le> 2 * live_shots g + length (asteroids g)
   \<and> length (asteroids g) \<le> length (asteroids (shots_loop i j g))"
proof (induction i j g rule: shots_loop.induct)
  case (1 i j g)
  show ?case
  proof (cases "j < length (shots g)")
    case True
    from 1[OF True] shot_check_measure[OF True, of i] show ?thesis
      by (subst (1 2 3) shots_loop.simps) (simp add: True)
  next
    case False
    then show ?thesis by (subst (1 2 3) shots_loop.simps) simp
  qed
qed

lemma ship_check_measure:
  "live_shots (ship_check i g) = live_shots g"
  "asteroids (ship_check i g) = asteroids g"
  by (simp_all add: ship_check_def Let_def live_shots_def add_explosion_def split: prod.splits)

function asteroids_loop :: "nat \<Rightarrow> Game \<Rightarrow> Game" where
  "asteroids_loop i g =
     (if i < length (asteroids g)
      then asteroids_loop (Suc i) (ship_check i (shots_loop i 0 g))
      else g)"
  by pat_completeness auto

termination asteroids_loop
proof (relation "measure (\<lambda>(i, g). 2 * live_shots g + (length (asteroids g) - i))")
  show "wf (measure (\<lambda>(i, g). 2 * live_shots g + (length (asteroids g) - i)))"
    by simp
next
  fix i :: nat and g :: Game
  assume "i < length (asteroids g)"
  with shots_loop_measure[of i 0 g]
  show "((Suc i, ship_check i (shots_loop i 0 g)), i, g)
          \<in> measure (\<lambda>(i, g). 2 * live_shots g + (length (asteroids g) - i))"
    by (simp add: ship_check_measure) arith
qed

declare asteroids_loop.simps [simp del]

definition chk_collisions :: "Game \<Rightarrow> Game" where
  "chk_collisions g = asteroids_loop 0 g"

subsection \<open>update\<close>

text \<open>The branch of \<open>Game.update\<close> for the menu.\<close>

definition update_menu :: "Keys \<Rightarrow> Game \<Rightarrow> Game" where
  "update_menu keys g =
     (let g1 = (if K_SPACE keys then restart g else g)
      in if text_blink g1 > 0
         then g1\<lparr>text_blink := text_blink g1 - 1\<rparr>
         else g1\<lparr>text_blink := TEXT_WAIT, text_visible := \<not> text_visible g1\<rparr>)"

text \<open>The keys of the branch for the running game.\<close>

definition update_keys :: "Keys \<Rightarrow> Game \<Rightarrow> Game" where
  "update_keys keys g =
     (let g1 = (if K_LEFT keys then g\<lparr>ship := set_rotate (rotate (ship g) + 5) (ship g)\<rparr> else g);
          g2 = (if K_RIGHT keys then g1\<lparr>ship := set_rotate (rotate (ship g1) - 5) (ship g1)\<rparr> else g1);
          g3 = g2\<lparr>ship := (ship g2)\<lparr>thrust := K_UP keys\<rparr>\<rparr>
      in if K_LCTRL keys
         then
           let heading = get_heading (ship g3);
               (p, h) = new_vec (vadd (cells (store g3) (position (ship g3)))
                                      (vscale heading (radius (ship g3)))) (store g3);
               (m, sm) = add_shot p (vscale heading 3) (shot_manager g3) (sound_manager g3)
           in g3\<lparr>shot_manager := m, sound_manager := sm, store := h\<rparr>
         else g3)"

text \<open>The respawn timer of the branch for the running game.\<close>

definition update_respawn :: "Game \<Rightarrow> Game" where
  "update_respawn g =
     (if respawn_time g > 0
      then
        let g1 = g\<lparr>respawn_time := respawn_time g - 1\<rparr>
        in if respawn_time g1 = 0
           then center_ship (g1\<lparr>ship := (ship g1)\<lparr>is_dead := False\<rparr>\<rparr>)
           else g1
      else g)"

definition update_play :: "Keys \<Rightarrow> Game \<Rightarrow> Game" where
  "update_play keys g = update_respawn (update_keys keys g)"

text \<open>The two scrolling layers and the branch on the state of the game.\<close>

definition update_state :: "Keys \<Rightarrow> Game \<Rightarrow> Game" where
  "update_state keys g =
     (let g1 = g\<lparr>bgscroll1 := BgScroll_update (bgscroll1 g),
                 bgscroll2 := BgScroll_update (bgscroll2 g)\<rparr>
      in if game_state g1 = GAME_MENU then update_menu keys g1 else update_play keys g1)"

text \<open>\<open>self.ship.update(clock)\<close>\<close>

definition update_ship :: "Game \<Rightarrow> Game" where
  "update_ship g =
     (let (s, h, sm) = Ship_update (ship g) (store g) (sound_manager g)
      in g\<lparr>ship := s, store := h, sound_manager := sm\<rparr>)"

text \<open>The update of the three managers, in the order of the source.\<close>

definition update_managers :: "Game \<Rightarrow> Game" where
  "update_managers g =
     (let (m1, h1) = ShotManager_update (shot_manager g) (store g);
          (m2, h2) = Manager_update Sprite_update (asteroid_manager g) h1;
          (m3, h3) = Manager_update Explosion_update (explosion_manager g) h2
      in g\<lparr>shot_manager := m1, asteroid_manager := m2, explosion_manager := m3, store := h3\<rparr>)"

text \<open>The last three lines of \<open>Game.update\<close>.\<close>

definition level_check :: "Game \<Rightarrow> Game" where
  "level_check g =
     (if length (asteroids g) = 0
      then
        let g1 = g\<lparr>level := level g + 1\<rparr>;
            (m, h) = add_asteroids (3 + level g1 * 2) (asteroid_manager g1) (store g1)
        in g1\<lparr>asteroid_manager := m, store := h\<rparr>
      else g)"

definition update :: "Keys \<Rightarrow> Game \<Rightarrow> Game" where
  "update keys g =
     level_check (update_managers (chk_collisions (update_ship (update_state keys g))))"

subsection \<open>Repeated updates\<close>

text \<open>\<open>n\<close> calls of \<open>update\<close> in a row, on a shot, an explosion and the shot manager.\<close>

definition Shot_updates :: "nat \<Rightarrow> Shot \<times> Store \<Rightarrow> Shot \<times> Store" where
  "Shot_updates n = (\<lambda>(s, h). Shot_update s h) ^^ n"

definition Explosion_updates :: "nat \<Rightarrow> Explosion \<times> Store \<Rightarrow> Explosion \<times> Store" where
  "Explosion_updates n = (\<lambda>(e, h). Explosion_update e h) ^^ n"

definition ShotManager_updates :: "nat \<Rightarrow> ShotManager \<times> Store \<Rightarrow> ShotManager \<times> Store" where
  "ShotManager_updates n = (\<lambda>(m, h). ShotManager_update m h) ^^ n"

section \<open>Properties of the sprites\<close>

subsection \<open>Wrapped positions\<close>

lemma pymod_range:
  assumes "0 < m"
  shows "0 \<le> pymod a m" and "pymod a m < m"
proof -
  from floor_divide_lower[OF assms, of a] show "0 \<le> pymod a m"
    by (simp add: pymod_def mult.commute)
  from floor_divide_upper[OF assms, of a] show "pymod a m < m"
    by (simp add: pymod_def algebra_simps)
qed

text \<open>On whole numbers \<open>pymod\<close> is the remainder of the integers.\<close>

lemma pymod_of_int: "pymod (of_int a) (of_int m) = of_int (a mod m)"
  by (simp add: pymod_def floor_divide_of_int_eq minus_mult_div_eq_mod
           flip: of_int_mult of_int_diff)

text \<open>
  C8. \<open>set_position\<close> changes nothing of the sprite but its position. With wrap the
  stored vector has \<open>x = (x_in + WIDTH) mod WIDTH\<close> and \<open>y = (y_in + HEIGHT) mod HEIGHT\<close>,
  so that \<open>0 \<le> x < WIDTH\<close> and \<open>0 \<le> y < HEIGHT\<close>; without wrap the sprite holds
  the vector it was given, unchanged.
\<close>

theorem set_position_wrapped:
  "case set_position v s h of (s', h') \<Rightarrow>
     s' = s\<lparr>position := position s'\<rparr> \<and>
     (if wrap s
      then vx (cells h' (position s')) = pymod (vx (cells h v) + real_of_int WIDTH) (real_of_int WIDTH)
         \<and> vy (cells h' (position s')) = pymod (vy (cells h v) + real_of_int HEIGHT) (real_of_int HEIGHT)
         \<and> 0 \<le> vx (cells h' (position s')) \<and> vx (cells h' (position s')) < real_of_int WIDTH
         \<and> 0 \<le> vy (cells h' (position s')) \<and> vy (cells h' (position s')) < real_of_int HEIGHT
      else position s' = v \<and> h' = h)"
  using pymod_range[of "real_of_int WIDTH"] pymod_range[of "real_of_int HEIGHT"]
  by (simp add: set_position_def new_vec_def Let_def WIDTH_def HEIGHT_def)

theorem set_position_wrapped_witness:
  "case set_position 0 ((Sprite_init \<lparr>surf_w = 90, surf_h = 90\<rparr> 0 1)\<lparr>wrap := True\<rparr>)
          \<lparr>cells = (\<lambda>_. \<lparr>vx = - 10, vy = 1210\<rparr>), next_ref = 1\<rparr> of
     (s', h') \<Rightarrow> cells h' (position s') = \<lparr>vx = 790, vy = 10\<rparr>"
  using set_position_wrapped[where v = 0
          and s = "(Sprite_init \<lparr>surf_w = 90, surf_h = 90\<rparr> 0 1)\<lparr>wrap := True\<rparr>"
          and h = "\<lparr>cells = (\<lambda>_. \<lparr>vx = - 10, vy = 1210\<rparr>), next_ref = 1\<rparr>"]
  by (simp add: set_position_def new_vec_def pymod_def WIDTH_def HEIGHT_def Let_def
           split: prod.splits)

subsection \<open>Collision of two circles\<close>

text \<open>
  C9. Two sprites collide exactly when the Euclidean distance of their positions is
  strictly less than the sum of their radii, and the test is symmetric.
\<close>

theorem is_circle_collide_symmetric:
  "(is_circle_collide h a b \<longleftrightarrow>
      sqrt ((vx (cells h (position a)) - vx (cells h (position b)))\<^sup>2
          + (vy (cells h (position a)) - vy (cells h (position b)))\<^sup>2)
        < radius a + radius b)
   \<and> (is_circle_collide h a b \<longleftrightarrow> is_circle_collide h b a)"
proof -
  have "(x - y) * (x - y) = (y - x) * (y - x)" for x y :: real
    by (simp add: algebra_simps)
  then show ?thesis
    by (simp add: is_circle_collide_def vlength_def vsub_def power2_eq_square add.commute)
qed

lemma sqrt_25: "sqrt 25 = 5"
  by (rule real_sqrt_unique) simp_all

text \<open>
  Circles of radius 2 and 3 at distance 5 touch and do not collide; with radius 3.5
  for the second they do.
\<close>

theorem is_circle_collide_symmetric_witness:
  "\<not> is_circle_collide \<lparr>cells = (\<lambda>_. \<lparr>vx = 0, vy = 0\<rparr>)(1 := \<lparr>vx = 3, vy = 4\<rparr>), next_ref = 2\<rparr>
        (Sprite_init \<lparr>surf_w = 4, surf_h = 4\<rparr> 0 1)
        (Sprite_init \<lparr>surf_w = 6, surf_h = 6\<rparr> 1 1)
   \<and> is_circle_collide \<lparr>cells = (\<lambda>_. \<lparr>vx = 0, vy = 0\<rparr>)(1 := \<lparr>vx = 3, vy = 4\<rparr>), next_ref = 2\<rparr>
        (Sprite_init \<lparr>surf_w = 4, surf_h = 4\<rparr> 0 1)
        (Sprite_init \<lparr>surf_w = 7, surf_h = 7\<rparr> 1 1)"
  using is_circle_collide_symmetric[where
          h = "\<lparr>cells = (\<lambda>_. \<lparr>vx = 0, vy = 0\<rparr>)(1 := \<lparr>vx = 3, vy = 4\<rparr>), next_ref = 2\<rparr>"
          and a = "Sprite_init \<lparr>surf_w = 4, surf_h = 4\<rparr> 0 1"
          and b = "Sprite_init \<lparr>surf_w = 6, surf_h = 6\<rparr> 1 1"]
    is_circle_collide_symmetric[where
          h = "\<lparr>cells = (\<lambda>_. \<lparr>vx = 0, vy = 0\<rparr>)(1 := \<lparr>vx = 3, vy = 4\<rparr>), next_ref = 2\<rparr>"
          and a = "Sprite_init \<lparr>surf_w = 4, surf_h = 4\<rparr> 0 1"
          and b = "Sprite_init \<lparr>surf_w = 7, surf_h = 7\<rparr> 1 1"]
  by (simp add: Sprite_init_def create_image_def Let_def sqrt_25)

subsection \<open>What Sprite.update keeps\<close>

lemma Sprite_update_is_dead [simp]: "is_dead (fst (Sprite_update s h)) = is_dead s"
  by (simp add: Sprite_update_def set_position_def set_rotate_def create_image_def new_vec_def
           Let_def)

lemma Sprite_update_time_to_live [simp]:
  "time_to_live (fst (Sprite_update s h)) = time_to_live s"
  by (simp add: Sprite_update_def set_position_def set_rotate_def create_image_def new_vec_def
           Let_def)

lemma Sprite_update_frames [simp]:
  "current_frame (fst (Sprite_update s h)) = current_frame s"
  "frames (fst (Sprite_update s h)) = frames s"
  by (simp_all add: Sprite_update_def set_position_def set_rotate_def create_image_def
           new_vec_def Let_def)

subsection \<open>The life of a shot\<close>

lemma Shot_update_fields:
  "time_to_live (fst (Shot_update s h)) =
     (if time_to_live s > 0 then time_to_live s - 1 else time_to_live s)"
  "is_dead (fst (Shot_update s h)) \<longleftrightarrow> is_dead s \<or> time_to_live s = 1"
  by (auto simp: Shot_update_def Let_def)

lemma Shot_init_fields:
  "time_to_live (Shot_init img p v) = 80" "\<not> is_dead (Shot_init img p v)"
  by (simp_all add: Shot_init_def Sprite_init_def create_image_def MAX_TIME_TO_LIVE_def Let_def
       Sprite.extend_def Shot.defs)

text \<open>
  C6. A new shot has 80 ticks to live. After \<open>n\<close> updates it has \<open>80 - n\<close> left (and
  0 from the 80th update on); it is dead after the 80th update and not before.
\<close>

theorem Shot_time_to_live:
  "time_to_live (Shot_init img p v) = 80
   \<and> time_to_live (fst (Shot_updates n (Shot_init img p v, h))) = max 0 (80 - int n)
   \<and> (is_dead (fst (Shot_updates n (Shot_init img p v, h))) \<longleftrightarrow> 80 \<le> n)"
proof (induction n)
  case 0
  then show ?case by (simp add: Shot_updates_def Shot_init_fields)
next
  case (Suc n)
  then show ?case
    by (auto simp: Shot_updates_def Shot_update_fields split: prod.splits)
qed

subsection \<open>The life of an explosion\<close>

lemma Explosion_update_fields:
  "length (frames e) = 24 \<Longrightarrow>
     current_frame (fst (Explosion_update e h)) = max 0 (min 23 (current_frame e + 1))"
  "length (frames e) = 24 \<Longrightarrow>
     is_dead (fst (Explosion_update e h)) \<longleftrightarrow> is_dead e \<or> max 0 (min 23 (current_frame e + 1)) = 23"
  "frames (fst (Explosion_update e h)) = frames e"
  by (auto simp: Explosion_update_def Let_def set_current_frame_def create_image_def)

lemma Explosion_init_fields:
  "current_frame (Explosion_init img p) = 0" "\<not> is_dead (Explosion_init img p)"
  "length (frames (Explosion_init img p)) = 24"
  by (simp_all add: Explosion_init_def Sprite_init_def create_image_def Let_def)

text \<open>
  C7. A new explosion shows frame 0. After \<open>n\<close> updates it shows frame \<open>n\<close>, up to
  frame 23 where the index stays; it is dead after the 23rd update and not before.
\<close>

theorem Explosion_frames:
  "current_frame (Explosion_init img p) = 0
   \<and> current_frame (fst (Explosion_updates n (Explosion_init img p, h))) = min 23 (int n)
   \<and> (is_dead (fst (Explosion_updates n (Explosion_init img p, h))) \<longleftrightarrow> 23 \<le> n)"
proof -
  have "current_frame (fst (Explosion_updates n (Explosion_init img p, h))) = min 23 (int n)
      \<and> (is_dead (fst (Explosion_updates n (Explosion_init img p, h))) \<longleftrightarrow> 23 \<le> n)
      \<and> length (frames (fst (Explosion_updates n (Explosion_init img p, h)))) = 24"
  proof (induction n)
    case 0
    then show ?case by (simp add: Explosion_updates_def Explosion_init_fields)
  next
    case (Suc n)
    then show ?case
      by (auto simp: Explosion_updates_def Explosion_update_fields split: prod.splits)
  qed
  then show ?thesis by (simp add: Explosion_init_fields)
qed

subsection \<open>The cooldown of the shot manager\<close>

lemma Manager_update_more [simp]:
  "shot_delay (fst (Manager_update upd m h)) = shot_delay m"
  "mgr_image (fst (Manager_update upd m h)) = mgr_image m"
  by (simp_all add: Manager_update_def split: prod.splits)

lemma ShotManager_update_shot_delay:
  "shot_delay (fst (ShotManager_update m h)) =
     (if 0 < shot_delay m then shot_delay m - 1 else shot_delay m)"
  by (simp add: ShotManager_update_def)

lemma ShotManager_updates_shot_delay:
  "0 \<le> shot_delay m \<Longrightarrow>
   shot_delay (fst (ShotManager_updates k (m, h))) = max 0 (shot_delay m - int k)"
proof (induction k)
  case 0
  then show ?case by (simp add: ShotManager_updates_def)
next
  case (Suc k)
  then show ?case
    by (auto simp: ShotManager_updates_def ShotManager_update_shot_delay split: prod.splits)
qed

text \<open>
  C5. \<open>add_shot\<close> changes nothing while the cooldown is positive. At cooldown 0 it
  appends one shot, sets the cooldown to 15 and asks for the sound. An update of the
  manager takes 1 off a positive cooldown. So after a shot was added, a second
  \<open>add_shot\<close> changes nothing when fewer than 15 updates of the manager lie between,
  and appends a second shot from the 15th update on.
\<close>

theorem add_shot_cooldown:
  "(0 < shot_delay m \<longrightarrow> add_shot p v m sm = (m, sm))
   \<and> (shot_delay m = 0 \<longrightarrow>
        add_shot p v m sm =
          (m\<lparr>objects := objects m @ [Shot_init (mgr_image m) p v], shot_delay := 15\<rparr>,
           play_shot sm))
   \<and> shot_delay (fst (ShotManager_update m h)) =
        (if 0 < shot_delay m then shot_delay m - 1 else shot_delay m)
   \<and> (shot_delay m = 0 \<longrightarrow>
        (case add_shot p v m sm of (m1, sm1) \<Rightarrow>
         case ShotManager_updates k (m1, h) of (m2, h2) \<Rightarrow>
           if k < 15
           then add_shot p' v' m2 sm1 = (m2, sm1)
           else add_shot p' v' m2 sm1 =
                  (m2\<lparr>objects := objects m2 @ [Shot_init (mgr_image m2) p' v'], shot_delay := 15\<rparr>,
                   play_shot sm1)))"
proof -
  have "shot_delay (fst (ShotManager_updates k (m1, h))) = max 0 (15 - int k)"
    if "shot_delay m1 = 15" for m1
    using ShotManager_updates_shot_delay[of m1 k h] that by simp
  then show ?thesis
    by (auto simp: add_shot_def MAX_SHOT_DELAY_def ShotManager_update_shot_delay
             split: prod.splits dest!: arg_cong[where f = fst])
qed

theorem add_shot_cooldown_witness:
  "shot_delay \<lparr>mgr_image = \<lparr>surf_w = 10, surf_h = 10\<rparr>, objects = [], shot_delay = 0\<rparr> = 0
   \<and> (case add_shot 0 \<lparr>vx = 3, vy = 0\<rparr>
              \<lparr>mgr_image = \<lparr>surf_w = 10, surf_h = 10\<rparr>, objects = [], shot_delay = 0\<rparr>
              \<lparr>playthrust = False, calls = []\<rparr> of
         (m1, sm1) \<Rightarrow>
           length (objects m1) = 1 \<and> shot_delay m1 = 15 \<and> calls sm1 = [Shot_play]
           \<and> add_shot 1 \<lparr>vx = 0, vy = 3\<rparr> m1 sm1 = (m1, sm1))"
  using add_shot_cooldown[where k = 0 and p = 0 and v = "\<lparr>vx = 3, vy = 0\<rparr>"
          and m = "\<lparr>mgr_image = \<lparr>surf_w = 10, surf_h = 10\<rparr>, objects = [], shot_delay = 0\<rparr>"
          and sm = "\<lparr>playthrust = False, calls = []\<rparr>"
          and p' = 1 and v' = "\<lparr>vx = 0, vy = 3\<rparr>"
          and h = "\<lparr>cells = (\<lambda>_. \<lparr>vx = 0, vy = 0\<rparr>), next_ref = 2\<rparr>"]
  by (simp add: ShotManager_updates_def play_shot_def add_shot_def MAX_SHOT_DELAY_def)

section \<open>The collision pass\<close>

lemma add_asteroid_Some:
  "add_asteroid sc (Some p) m h =
     (m\<lparr>objects := objects m @
           [Asteroid_init (mgr_image m) p
              (from_polar 1 (real_of_int (fst (randint 0 360 (rnd m)))))
              (fst (randint (- 10) 10 (snd (randint 0 360 (rnd m))))) sc],
         rnd := snd (randint (- 10) 10 (snd (randint 0 360 (rnd m))))\<rparr>,
      h)"
  by (simp add: add_asteroid_def Let_def split: prod.splits)

text \<open>The test of the inner loop, and the test of the ship check.\<close>

definition hit :: "nat \<Rightarrow> nat \<Rightarrow> Game \<Rightarrow> bool" where
  "hit i j g \<longleftrightarrow>
     \<not> is_dead (asteroids g ! i) \<and> \<not> is_dead (shots g ! j)
     \<and> is_circle_collide (store g) (shots g ! j) (asteroids g ! i)"

lemma shot_check_miss: "\<not> hit i j g \<Longrightarrow> shot_check i j g = g"
  by (auto simp add: shot_check_def hit_def Let_def)

lemma shot_check_shots:
  "hit i j g \<Longrightarrow> shots (shot_check i j g) = (shots g)[j := (shots g ! j)\<lparr>is_dead := True\<rparr>]"
  by (simp add: shot_check_def hit_def Let_def add_explosion_def add_asteroid_Some)

lemma shot_check_asteroids:
  "hit i j g \<Longrightarrow> \<exists>cs. asteroids (shot_check i j g) =
      (asteroids g)[i := (asteroids g ! i)\<lparr>is_dead := True\<rparr>] @ cs"
  by (simp add: shot_check_def hit_def Let_def add_explosion_def add_asteroid_Some)

lemma shot_check_explosions:
  "hit i j g \<Longrightarrow> explosions (shot_check i j g) =
      explosions g @ [Explosion_init (mgr_image (explosion_manager g)) (position (asteroids g ! i))]"
  by (simp add: shot_check_def hit_def Let_def add_explosion_def add_asteroid_Some)

lemma shot_check_score:
  "hit i j g \<Longrightarrow> score (shot_check i j g) = score g + 1000"
  by (simp add: shot_check_def hit_def Let_def add_explosion_def add_asteroid_Some)

lemma shot_check_frame:
  "store (shot_check i j g) = store g"
  "lives (shot_check i j g) = lives g"
  "level (shot_check i j g) = level g"
  "ship (shot_check i j g) = ship g"
  "game_state (shot_check i j g) = game_state g"
  "respawn_time (shot_check i j g) = respawn_time g"
  "mgr_image (shot_manager (shot_check i j g)) = mgr_image (shot_manager g)"
  "shot_delay (shot_manager (shot_check i j g)) = shot_delay (shot_manager g)"
  "mgr_image (asteroid_manager (shot_check i j g)) = mgr_image (asteroid_manager g)"
  "mgr_image (explosion_manager (shot_check i j g)) = mgr_image (explosion_manager g)"
  "bgscroll1 (shot_check i j g) = bgscroll1 g"
  "bgscroll2 (shot_check i j g) = bgscroll2 g"
  "text_blink (shot_check i j g) = text_blink g"
  "text_visible (shot_check i j g) = text_visible g"
  by (simp_all add: shot_check_def Let_def add_explosion_def add_asteroid_Some)


lemma ship_check_frame:
  "store (ship_check i g) = store g"
  "shots (ship_check i g) = shots g"
  "asteroids (ship_check i g) = asteroids g"
  "score (ship_check i g) = score g"
  "level (ship_check i g) = level g"
  "shot_manager (ship_check i g) = shot_manager g"
  "asteroid_manager (ship_check i g) = asteroid_manager g"
  "mgr_image (explosion_manager (ship_check i g)) = mgr_image (explosion_manager g)"
  "bgscroll1 (ship_check i g) = bgscroll1 g"
  "bgscroll2 (ship_check i g) = bgscroll2 g"
  "text_blink (ship_check i g) = text_blink g"
  "text_visible (ship_check i g) = text_visible g"
  by (simp_all add: ship_check_def Let_def add_explosion_def)

definition ship_hit :: "nat \<Rightarrow> Game \<Rightarrow> bool" where
  "ship_hit i g \<longleftrightarrow>
     \<not> is_dead (asteroids g ! i) \<and> \<not> is_dead (ship g)
     \<and> is_circle_collide (store g) (ship g) (asteroids g ! i)"

lemma ship_check_miss: "\<not> ship_hit i g \<Longrightarrow> ship_check i g = g"
  by (auto simp add: ship_check_def ship_hit_def Let_def)

lemma ship_check_hit:
  assumes "ship_hit i g"
  shows "lives (ship_check i g) = lives g - 1"
    and "ship (ship_check i g) = (ship g)\<lparr>is_dead := True, thrust := False\<rparr>"
    and "explosions (ship_check i g) =
           explosions g @ [Explosion_init (mgr_image (explosion_manager g)) (position (ship g))]"
    and "game_state (ship_check i g) = (if lives g = 1 then GAME_MENU else game_state g)"
    and "respawn_time (ship_check i g) = (if lives g = 1 then respawn_time g else MAX_RESPAWN_TIME)"
  using assms by (simp_all add: ship_check_def ship_hit_def Let_def add_explosion_def)

text \<open>
  What a collision pass may do to a state: sprites are marked dead and otherwise kept,
  asteroids and explosions are appended, the store is not touched, the ship can only
  be killed, and with a dead ship the lives, the state of the game and the respawn
  timer stay.
\<close>

definition marked :: "'a Sprite_scheme \<Rightarrow> 'a Sprite_scheme \<Rightarrow> bool" where
  "marked a a' \<longleftrightarrow> a' = a \<or> a' = a\<lparr>is_dead := True\<rparr>"

definition pass_rel :: "Game \<Rightarrow> Game \<Rightarrow> bool" where
  "pass_rel g g' \<longleftrightarrow>
     length (shots g') = length (shots g)
   \<and> (\<forall>j<length (shots g). marked (shots g ! j) (shots g' ! j))
   \<and> length (asteroids g) \<le> length (asteroids g')
   \<and> (\<forall>k<length (asteroids g). marked (asteroids g ! k) (asteroids g' ! k))
   \<and> (\<exists>xs. explosions g' = explosions g @ xs)
   \<and> store g' = store g
   \<and> score g \<le> score g'
   \<and> lives g' \<le> lives g
   \<and> level g' = level g
   \<and> (ship g' = ship g \<or> (\<not> is_dead (ship g) \<and> ship g' = (ship g)\<lparr>is_dead := True, thrust := False\<rparr>))
   \<and> (is_dead (ship g) \<longrightarrow>
        lives g' = lives g \<and> game_state g' = game_state g \<and> respawn_time g' = respawn_time g)
   \<and> mgr_image (shot_manager g') = mgr_image (shot_manager g)
   \<and> shot_delay (shot_manager g') = shot_delay (shot_manager g)
   \<and> mgr_image (asteroid_manager g') = mgr_image (asteroid_manager g)
   \<and> mgr_image (explosion_manager g') = mgr_image (explosion_manager g)
   \<and> bgscroll1 g' = bgscroll1 g \<and> bgscroll2 g' = bgscroll2 g
   \<and> text_blink g' = text_blink g \<and> text_visible g' = text_visible g"

lemma marked_refl [simp]: "marked a a"
  by (simp add: marked_def)

lemma marked_trans: "marked a b \<Longrightarrow> marked b c \<Longrightarrow> marked a c"
  by (auto simp: marked_def)

lemma pass_rel_refl [simp]: "pass_rel g g"
  by (simp add: pass_rel_def)

lemma pass_rel_trans:
  assumes ab: "pass_rel a b" and bc: "pass_rel b c"
  shows "pass_rel a c"
proof -
  have 1: "marked (shots a ! j) (shots c ! j)" if "j < length (shots a)" for j
  proof -
    from that ab bc have "marked (shots a ! j) (shots b ! j)" "marked (shots b ! j) (shots c ! j)"
      by (simp_all add: pass_rel_def)
    then show ?thesis by (rule marked_trans)
  qed
  have 2: "marked (asteroids a ! k) (asteroids c ! k)" if "k < length (asteroids a)" for k
  proof -
    from that ab bc have "marked (asteroids a ! k) (asteroids b ! k)" "marked (asteroids b ! k) (asteroids c ! k)"
      by (simp_all add: pass_rel_def)
    then show ?thesis by (rule marked_trans)
  qed
  from ab bc obtain xs ys where "explosions b = explosions a @ xs" "explosions c = explosions b @ ys"
    unfolding pass_rel_def by blast
  then have 3: "\<exists>zs. explosions c = explosions a @ zs" by simp
  have 4: "ship c = ship a \<or> (\<not> is_dead (ship a) \<and> ship c = (ship a)\<lparr>is_dead := True, thrust := False\<rparr>)"
  proof -
    from ab have "ship b = ship a \<or> (\<not> is_dead (ship a) \<and> ship b = (ship a)\<lparr>is_dead := True, thrust := False\<rparr>)"
      by (simp add: pass_rel_def)
    moreover from bc have "ship c = ship b \<or> (\<not> is_dead (ship b) \<and> ship c = (ship b)\<lparr>is_dead := True, thrust := False\<rparr>)"
      by (simp add: pass_rel_def)
    ultimately show ?thesis by auto
  qed
  have 5: "lives c = lives a \<and> game_state c = game_state a \<and> respawn_time c = respawn_time a"
    if "is_dead (ship a)"
  proof -
    from ab that have b: "ship b = ship a" "lives b = lives a \<and> game_state b = game_state a \<and> respawn_time b = respawn_time a"
      by (auto simp add: pass_rel_def)
    with that bc have "lives c = lives b \<and> game_state c = game_state b \<and> respawn_time c = respawn_time b"
      by (simp add: pass_rel_def)
    with b show ?thesis by simp
  qed
  from ab bc have 6: "length (shots c) = length (shots a)" "length (asteroids a) \<le> length (asteroids c)"
    "store c = store a" "score a \<le> score c" "lives c \<le> lives a" "level c = level a"
    by (simp_all add: pass_rel_def)
  from ab bc have 7: "mgr_image (shot_manager c) = mgr_image (shot_manager a)"
   "shot_delay (shot_manager c) = shot_delay (shot_manager a)"
   "mgr_image (asteroid_manager c) = mgr_image (asteroid_manager a)"
   "mgr_image (explosion_manager c) = mgr_image (explosion_manager a)"
   "bgscroll1 c = bgscroll1 a" "bgscroll2 c = bgscroll2 a"
   "text_blink c = text_blink a" "text_visible c = text_visible a"
    by (simp_all add: pass_rel_def)
  show ?thesis
    unfolding pass_rel_def using 1 2 3 4 5 6 7 by blast
qed

lemma marked_list_update:
  "marked (xs ! k) (xs[i := (xs ! i)\<lparr>is_dead := True\<rparr>] ! k)"
  by (cases "k = i"; cases "i < length xs") (simp_all add: marked_def list_update_beyond)

lemma pass_rel_shot_check: "pass_rel g (shot_check i j g)"
proof (cases "hit i j g")
  case False
  then show ?thesis by (simp add: shot_check_miss)
next
  case True
  from shot_check_asteroids[OF True] obtain cs where
    cs: "asteroids (shot_check i j g) = (asteroids g)[i := (asteroids g ! i)\<lparr>is_dead := True\<rparr>] @ cs"
    by blast
  show ?thesis
    unfolding pass_rel_def
    by (simp add: shot_check_frame shot_check_shots[OF True] cs shot_check_explosions[OF True]
          shot_check_score[OF True] marked_list_update nth_append)
qed

lemma pass_rel_ship_check: "pass_rel g (ship_check i g)"
proof (cases "ship_hit i g")
  case False
  then show ?thesis by (simp add: ship_check_miss)
next
  case True
  then have "\<not> is_dead (ship g)" by (simp add: ship_hit_def)
  then show ?thesis
    unfolding pass_rel_def
    by (simp add: ship_check_frame ship_check_hit[OF True])
qed

lemma pass_rel_shots_loop: "pass_rel g (shots_loop i j g)"
proof (induction i j g rule: shots_loop.induct)
  case (1 i j g)
  show ?case
  proof (cases "j < length (shots g)")
    case True
    have "pass_rel g (shots_loop i (Suc j) (shot_check i j g))"
      using pass_rel_shot_check 1[OF True] by (rule pass_rel_trans)
    then show ?thesis
      by (subst shots_loop.simps) (simp add: True)
  next
    case False
    then show ?thesis by (subst shots_loop.simps) simp
  qed
qed

lemma pass_rel_asteroids_loop: "pass_rel g (asteroids_loop i g)"
proof (induction i g rule: asteroids_loop.induct)
  case (1 i g)
  show ?case
  proof (cases "i < length (asteroids g)")
    case True
    have "pass_rel g (ship_check i (shots_loop i 0 g))"
      using pass_rel_shots_loop pass_rel_ship_check by (rule pass_rel_trans)
    then have "pass_rel g (asteroids_loop (Suc i) (ship_check i (shots_loop i 0 g)))"
      using 1[OF True] by (rule pass_rel_trans)
    then show ?thesis
      by (subst asteroids_loop.simps) (simp add: True)
  next
    case False
    then show ?thesis by (subst asteroids_loop.simps) simp
  qed
qed

subsection \<open>A shot hits an asteroid\<close>

lemma Asteroid_init_fields:
  "scale (Asteroid_init img p v r sc) = sc"
  "position (Asteroid_init img p v r sc) = p"
  "\<not> is_dead (Asteroid_init img p v r sc)"
  by (simp_all add: Asteroid_init_def set_scale_def create_image_def Sprite_init_def Let_def)

lemma shot_check_children:
  assumes "hit i j g"
  shows "asteroids (shot_check i j g) =
     (asteroids g)[i := (asteroids g ! i)\<lparr>is_dead := True\<rparr>] @
     (if 1 / 2 < scale (asteroids g ! i)
      then let sc = (if scale (asteroids g ! i) = 1 then 3 / 4 else 1 / 2);
               img = mgr_image (asteroid_manager g);
               p = position (asteroids g ! i);
               (alfa1, r1) = randint 0 360 (rnd (asteroid_manager g));
               (rot1, r2) = randint (- 10) 10 r1;
               (alfa2, r3) = randint 0 360 r2;
               (rot2, r4) = randint (- 10) 10 r3
           in [Asteroid_init img p (from_polar 1 (real_of_int alfa1)) rot1 sc,
               Asteroid_init img p (from_polar 1 (real_of_int alfa2)) rot2 sc]
      else [])"
  using assms
  by (simp add: shot_check_def hit_def Let_def add_explosion_def add_asteroid_Some split: prod.splits)



text \<open>
  A game in the menu after a lost round: the ship is dead, one shot and one asteroid
  of scale 1 are left, at the same place.
\<close>

definition demo_game :: Game where
  "demo_game =
     \<lparr>bgscroll1 = \<lparr>bg_x = 0, bg_dx = 1 / 2\<rparr>,
      bgscroll2 = \<lparr>bg_x = 0, bg_dx = 1\<rparr>,
      ship = (Ship_init \<lparr>surf_w = 180, surf_h = 90\<rparr> 0)\<lparr>is_dead := True\<rparr>,
      shot_manager =
        \<lparr>mgr_image = \<lparr>surf_w = 10, surf_h = 10\<rparr>,
         objects = [Shot_init \<lparr>surf_w = 10, surf_h = 10\<rparr> 2 \<lparr>vx = 3, vy = 0\<rparr>],
         shot_delay = 0\<rparr>,
      asteroid_manager =
        \<lparr>mgr_image = \<lparr>surf_w = 90, surf_h = 90\<rparr>,
         objects = [Asteroid_init \<lparr>surf_w = 90, surf_h = 90\<rparr> 1 \<lparr>vx = 1, vy = 0\<rparr> 0 1],
         rnd = (\<lambda>_. 0)\<rparr>,
      explosion_manager = \<lparr>mgr_image = \<lparr>surf_w = 3072, surf_h = 128\<rparr>, objects = []\<rparr>,
      game_state = GAME_MENU,
      text_visible = True,
      text_blink = 0,
      level = 1,
      lives = 0,
      score = 0,
      respawn_time = 0,
      sound_manager = \<lparr>playthrust = False, calls = []\<rparr>,
      store = \<lparr>cells = (\<lambda>_. \<lparr>vx = 100, vy = 100\<rparr>)
                        (1 := \<lparr>vx = 200, vy = 200\<rparr>, 2 := \<lparr>vx = 200, vy = 200\<rparr>),
               next_ref = 3\<rparr>\<rparr>"



subsection \<open>The ship check comes after the shots\<close>

lemma shot_check_other:
  "k \<noteq> i \<Longrightarrow> k < length (asteroids g) \<Longrightarrow> asteroids (shot_check i j g) ! k = asteroids g ! k"
proof (cases "hit i j g")
  case False
  then show ?thesis by (simp add: shot_check_miss)
next
  case True
  assume "k \<noteq> i" "k < length (asteroids g)"
  then show ?thesis
    by (simp add: shot_check_children[OF True] nth_append)
qed

lemma shots_loop_other:
  "k \<noteq> i \<Longrightarrow> k < length (asteroids g) \<Longrightarrow> asteroids (shots_loop i j g) ! k = asteroids g ! k"
proof (induction i j g rule: shots_loop.induct)
  case (1 i j g)
  show ?case
  proof (cases "j < length (shots g)")
    case True
    from pass_rel_shot_check[of g i j] 1(3)
    have "k < length (asteroids (shot_check i j g))" by (simp add: pass_rel_def)
    with 1(1)[OF True 1(2)] shot_check_other[OF 1(2,3)] show ?thesis
      by (subst shots_loop.simps) (simp add: True)
  next
    case False
    then show ?thesis by (subst shots_loop.simps) simp
  qed
qed

lemma asteroids_loop_below:
  "k < i \<Longrightarrow> k < length (asteroids g) \<Longrightarrow> asteroids (asteroids_loop i g) ! k = asteroids g ! k"
proof (induction i g rule: asteroids_loop.induct)
  case (1 i g)
  show ?case
  proof (cases "i < length (asteroids g)")
    case True
    let ?g2 = "ship_check i (shots_loop i 0 g)"
    from 1(2) have ki: "k \<noteq> i" "k < Suc i" by simp_all
    have eq: "asteroids ?g2 ! k = asteroids g ! k"
      by (simp add: ship_check_frame shots_loop_other[OF ki(1) 1(3)])
    from pass_rel_shots_loop[of g i 0] 1(3)
    have "k < length (asteroids ?g2)" by (simp add: pass_rel_def ship_check_frame)
    from 1(1)[OF True ki(2) this] eq show ?thesis
      by (subst asteroids_loop.simps) (simp add: True)
  next
    case False
    then show ?thesis by (subst asteroids_loop.simps) simp
  qed
qed

lemma shots_loop_frame:
  "lives (shots_loop i j g) = lives g"
  "ship (shots_loop i j g) = ship g"
  "game_state (shots_loop i j g) = game_state g"
  "respawn_time (shots_loop i j g) = respawn_time g"
proof (induction i j g rule: shots_loop.induct)
  case (1 i j g)
  {
    case 1
    show ?case using "1.IH"(1) by (subst shots_loop.simps) (simp add: shot_check_frame)
  next
    case 2
    show ?case using "1.IH"(2) by (subst shots_loop.simps) (simp add: shot_check_frame)
  next
    case 3
    show ?case using "1.IH"(3) by (subst shots_loop.simps) (simp add: shot_check_frame)
  next
    case 4
    show ?case using "1.IH"(4) by (subst shots_loop.simps) (simp add: shot_check_frame)
  }
qed


lemma is_circle_collide_killed:
  "is_circle_collide h (s\<lparr>is_dead := True, thrust := False\<rparr>) a = is_circle_collide h s a"
  by (simp add: is_circle_collide_def)

lemma asteroids_loop_lives:
  "lives (asteroids_loop i g) = lives g
   \<or> (lives (asteroids_loop i g) = lives g - 1
      \<and> (\<exists>k<length (asteroids (asteroids_loop i g)).
            \<not> is_dead (asteroids (asteroids_loop i g) ! k)
            \<and> is_circle_collide (store g) (ship g) (asteroids (asteroids_loop i g) ! k)))"
proof (induction i g rule: asteroids_loop.induct)
  case (1 i g)
  show ?case
  proof (cases "i < length (asteroids g)")
    case False
    then show ?thesis by (subst (1 2 3 4 5) asteroids_loop.simps) simp
  next
    case True
    let ?g1 = "shots_loop i 0 g"
    let ?g2 = "ship_check i ?g1"
    let ?g' = "asteroids_loop (Suc i) ?g2"
    have unfold: "asteroids_loop i g = ?g'"
      by (subst asteroids_loop.simps) (simp add: True)
    have g1: "lives ?g1 = lives g" "ship ?g1 = ship g" "store ?g1 = store g"
      using pass_rel_shots_loop[of g i 0] by (simp_all add: shots_loop_frame pass_rel_def)
    have len: "i < length (asteroids ?g2)"
      using pass_rel_shots_loop[of g i 0] True by (simp add: pass_rel_def ship_check_frame)
    show ?thesis
    proof (cases "ship_hit i ?g1")
      case False
      then have "?g2 = ?g1" by (simp add: ship_check_miss)
      with 1[OF True] g1 show ?thesis
        unfolding unfold by simp
    next
      case hit: True
      have dead: "is_dead (ship ?g2)" "lives ?g2 = lives g - 1"
        by (simp_all add: ship_check_hit[OF hit] g1)
      from pass_rel_asteroids_loop[of ?g2 "Suc i"] dead
      have l: "lives ?g' = lives g - 1" "length (asteroids ?g2) \<le> length (asteroids ?g')"
        by (simp_all add: pass_rel_def)
      have "asteroids ?g' ! i = asteroids ?g1 ! i"
        using asteroids_loop_below[of i "Suc i" ?g2] len by (simp add: ship_check_frame)
      with hit g1 have alive: "\<not> is_dead (asteroids ?g' ! i)"
        "is_circle_collide (store g) (ship g) (asteroids ?g' ! i)"
        by (simp_all add: ship_hit_def)
      from l len have "i < length (asteroids ?g')" by simp
      with alive l(1) show ?thesis
        unfolding unfold by blast
    qed
  qed
qed

text \<open>
  C3. For every asteroid the pass first runs the whole loop over the shots and then
  the ship check for that asteroid. The loop over the shots does not change the lives,
  and an asteroid that it has marked dead makes the ship check do nothing. Over the
  whole pass: when the lives change, they drop by exactly one, and an asteroid that
  collides with the ship is still alive at the end of the pass, that is, it was not
  destroyed by a shot in this pass.
\<close>

theorem ship_check_after_shots:
  "(i < length (asteroids g) \<longrightarrow>
      asteroids_loop i g = asteroids_loop (Suc i) (ship_check i (shots_loop i 0 g)))
   \<and> lives (shots_loop i 0 g) = lives g
   \<and> (is_dead (asteroids (shots_loop i 0 g) ! i) \<longrightarrow>
        ship_check i (shots_loop i 0 g) = shots_loop i 0 g)
   \<and> (lives (chk_collisions g) \<noteq> lives g \<longrightarrow>
        lives (chk_collisions g) = lives g - 1
        \<and> (\<exists>k<length (asteroids (chk_collisions g)).
              \<not> is_dead (asteroids (chk_collisions g) ! k)
              \<and> is_circle_collide (store g) (ship g) (asteroids (chk_collisions g) ! k)))"
proof -
  have "i < length (asteroids g) \<longrightarrow>
      asteroids_loop i g = asteroids_loop (Suc i) (ship_check i (shots_loop i 0 g))"
    by (subst asteroids_loop.simps) simp
  moreover have "is_dead (asteroids (shots_loop i 0 g) ! i) \<longrightarrow>
        ship_check i (shots_loop i 0 g) = shots_loop i 0 g"
    by (simp add: ship_check_miss ship_hit_def)
  moreover note asteroids_loop_lives[of 0 g] shots_loop_frame(1)[of i 0 g]
  ultimately show ?thesis
    unfolding chk_collisions_def by blast
qed


text \<open>
  Two running games: in \<open>demo_crash\<close> the live ship sits on the asteroid and no shot
  is left; in \<open>demo_both\<close> the ship, a shot and an asteroid of scale 0.5 are at the
  same place.
\<close>

definition demo_crash :: Game where
  "demo_crash =
     demo_game
       \<lparr>ship := (ship demo_game)\<lparr>is_dead := False\<rparr>,
        shot_manager := (shot_manager demo_game)\<lparr>objects := []\<rparr>,
        game_state := GAME_PLAY,
        lives := 3,
        store := (store demo_game)\<lparr>cells := (cells (store demo_game))(0 := \<lparr>vx = 200, vy = 200\<rparr>)\<rparr>\<rparr>"

definition demo_both :: Game where
  "demo_both =
     demo_crash
       \<lparr>shot_manager := shot_manager demo_game,
        asteroid_manager :=
          (asteroid_manager demo_game)
            \<lparr>objects := [Asteroid_init \<lparr>surf_w = 90, surf_h = 90\<rparr> 1 \<lparr>vx = 1, vy = 0\<rparr> 0 (1 / 2)]\<rparr>\<rparr>"

lemma shots_loop_end: "length (shots g) \<le> j \<Longrightarrow> shots_loop i j g = g"
  by (subst shots_loop.simps) simp

lemma shots_loop_step:
  "j < length (shots g) \<Longrightarrow> shots_loop i j g = shots_loop i (Suc j) (shot_check i j g)"
  by (subst shots_loop.simps) simp

lemma asteroids_loop_end: "length (asteroids g) \<le> i \<Longrightarrow> asteroids_loop i g = g"
  by (subst asteroids_loop.simps) simp

lemma asteroids_loop_step:
  "i < length (asteroids g) \<Longrightarrow>
   asteroids_loop i g = asteroids_loop (Suc i) (ship_check i (shots_loop i 0 g))"
  by (subst asteroids_loop.simps) simp

lemma demo_crash_chk:
  "chk_collisions demo_crash = ship_check 0 demo_crash"
  "ship_hit 0 demo_crash"
proof -
  have 1: "shots demo_crash = []" "length (asteroids demo_crash) = 1"
    by (simp_all add: demo_crash_def demo_game_def)
  show "chk_collisions demo_crash = ship_check 0 demo_crash"
    by (simp add: chk_collisions_def asteroids_loop_step 1 shots_loop_end asteroids_loop_end ship_check_frame)
  show "ship_hit 0 demo_crash"
    by (simp add: ship_hit_def demo_crash_def demo_game_def Asteroid_init_def Ship_init_def Sprite_init_def set_scale_def
        create_image_def is_circle_collide_def vlength_def vsub_def Let_def
        Sprite.extend_def Ship.defs)
qed

lemma shot_check_small:
  "hit i j g \<Longrightarrow> scale (asteroids g ! i) \<le> 1 / 2 \<Longrightarrow>
   asteroids (shot_check i j g) = (asteroids g)[i := (asteroids g ! i)\<lparr>is_dead := True\<rparr>]"
  by (simp add: shot_check_children)

lemma demo_both_chk:
  "shots_loop 0 0 demo_both = shot_check 0 0 demo_both"
  "hit 0 0 demo_both"
  "chk_collisions demo_both = shot_check 0 0 demo_both"
  "is_circle_collide (store demo_both) (ship demo_both) (asteroids demo_both ! 0)"
proof -
  have 1: "length (shots demo_both) = 1" "length (asteroids demo_both) = 1"
    by (simp_all add: demo_both_def demo_crash_def demo_game_def)
  show 2: "shots_loop 0 0 demo_both = shot_check 0 0 demo_both"
    by (simp add: shots_loop_step 1 shots_loop_end length_shots_shot_check)
  show 3: "hit 0 0 demo_both"
    by (simp add: hit_def demo_both_def demo_crash_def demo_game_def Asteroid_init_def Shot_init_def Sprite_init_def set_scale_def
        create_image_def is_circle_collide_def vlength_def vsub_def Let_def trunc_def
        Sprite.extend_def Shot.defs)
  have 4: "scale (asteroids demo_both ! 0) \<le> 1 / 2"
    by (simp add: demo_both_def Asteroid_init_fields)
  have 5: "length (asteroids (shot_check 0 0 demo_both)) = 1"
    by (simp add: shot_check_small[OF 3 4] 1)
  have 6: "is_dead (asteroids (shot_check 0 0 demo_both) ! 0)"
    using 1 by (simp add: shot_check_small[OF 3 4])
  show "chk_collisions demo_both = shot_check 0 0 demo_both"
    by (simp add: chk_collisions_def asteroids_loop_step 1 2 asteroids_loop_end ship_check_frame 5
          ship_check_miss ship_hit_def 6)
  show "is_circle_collide (store demo_both) (ship demo_both) (asteroids demo_both ! 0)"
    by (simp add: demo_both_def demo_crash_def demo_game_def Asteroid_init_def Ship_init_def Sprite_init_def set_scale_def
        create_image_def is_circle_collide_def vlength_def vsub_def Let_def trunc_def
        Sprite.extend_def Ship.defs)
qed

theorem ship_check_after_shots_witness:
  "0 < length (asteroids demo_both)
   \<and> is_dead (asteroids (shots_loop 0 0 demo_both) ! 0)
   \<and> is_circle_collide (store demo_both) (ship demo_both) (asteroids demo_both ! 0)
   \<and> ship_check 0 (shots_loop 0 0 demo_both) = shots_loop 0 0 demo_both
   \<and> lives (chk_collisions demo_both) = lives demo_both
   \<and> lives (chk_collisions demo_crash) \<noteq> lives demo_crash
   \<and> lives (chk_collisions demo_crash) = 2
   \<and> \<not> is_dead (asteroids (chk_collisions demo_crash) ! 0)"
proof -
  have 1: "length (asteroids demo_both) = 1"
    by (simp add: demo_both_def demo_crash_def demo_game_def)
  have 2: "is_dead (asteroids (shots_loop 0 0 demo_both) ! 0)"
    using 1 shot_check_asteroids[OF demo_both_chk(2)]
    by (auto simp add: demo_both_chk(1) nth_append)
  have 3: "lives (chk_collisions demo_both) = lives demo_both"
    by (simp add: demo_both_chk(3) shot_check_frame)
  have 4: "lives demo_crash = 3" "\<not> is_dead (asteroids demo_crash ! 0)"
    by (simp_all add: demo_crash_def demo_game_def Asteroid_init_fields)
  have 5: "lives (chk_collisions demo_crash) = 2"
    "\<not> is_dead (asteroids (chk_collisions demo_crash) ! 0)"
    using 4 by (simp_all add: demo_crash_chk(1) ship_check_hit[OF demo_crash_chk(2)] ship_check_frame)
  from ship_check_after_shots[of 0 demo_both] ship_check_after_shots[of 0 demo_crash]
    1 2 3 4 5 demo_both_chk(4)
  show ?thesis by simp
qed

section \<open>Properties of a tick\<close>

subsection \<open>The next level\<close>

lemma add_asteroid_objects:
  "\<exists>a. objects (fst (add_asteroid sc po m h)) = objects m @ [a] \<and> scale a = sc \<and> \<not> is_dead a"
  by (cases po) (simp_all add: add_asteroid_def Let_def Asteroid_init_fields split: prod.splits)

lemma add_asteroids_loop_objects:
  "\<exists>xs. objects (fst (add_asteroids_loop n m h)) = objects m @ xs \<and> length xs = n
        \<and> (\<forall>a\<in>set xs. scale a = 1 \<and> \<not> is_dead a)"
proof (induction n arbitrary: m h)
  case 0
  then show ?case by simp
next
  case (Suc n)
  obtain m' h' where step: "add_asteroid 1 None m h = (m', h')" by (cases "add_asteroid 1 None m h")
  from add_asteroid_objects[of 1 None m h] step obtain a where
    a: "objects m' = objects m @ [a]" "scale a = 1" "\<not> is_dead a" by auto
  from Suc[of m' h'] obtain xs where
    xs: "objects (fst (add_asteroids_loop n m' h')) = objects m' @ xs" "length xs = n"
      "\<forall>a\<in>set xs. scale a = 1 \<and> \<not> is_dead a" by blast
  have "objects (fst (add_asteroids_loop (Suc n) m h)) = objects m @ (a # xs)"
    by (simp add: step xs a)
  with xs a show ?case by (intro exI[of _ "a # xs"]) simp
qed

lemma level_check_empty:
  assumes "asteroids g = []"
  shows "level (level_check g) = level g + 1"
    and "int (length (asteroids (level_check g))) = max 0 (3 + (level g + 1) * 2)"
    and "\<forall>a\<in>set (asteroids (level_check g)). scale a = 1 \<and> \<not> is_dead a"
proof -
  let ?m = "asteroid_manager g"
  let ?n = "nat (3 + (level g + 1) * 2)"
  from add_asteroids_loop_objects[of ?n ?m "store g"] assms obtain xs where
    xs: "objects (fst (add_asteroids_loop ?n ?m (store g))) = xs" "length xs = ?n"
      "\<forall>a\<in>set xs. scale a = 1 \<and> \<not> is_dead a" by auto
  have a: "asteroids (level_check g) = xs"
    using assms xs(1) by (simp add: level_check_def Let_def add_asteroids_def case_prod_beta)
  show "level (level_check g) = level g + 1"
    using assms by (simp add: level_check_def Let_def case_prod_beta)
  show "int (length (asteroids (level_check g))) = max 0 (3 + (level g + 1) * 2)"
    using xs(2) by (simp add: a)
  show "\<forall>a\<in>set (asteroids (level_check g)). scale a = 1 \<and> \<not> is_dead a"
    using xs(3) by (simp add: a)
qed

lemma level_check_nonempty: "asteroids g \<noteq> [] \<Longrightarrow> level_check g = g"
  by (simp add: level_check_def)

lemma update_managers_frame:
  "level (update_managers g) = level g"
  "score (update_managers g) = score g"
  "lives (update_managers g) = lives g"
  "ship (update_managers g) = ship g"
  "game_state (update_managers g) = game_state g"
  "respawn_time (update_managers g) = respawn_time g"
  by (simp_all add: update_managers_def Let_def split: prod.splits)

lemma update_ship_frame:
  "level (update_ship g) = level g"
  "score (update_ship g) = score g"
  "lives (update_ship g) = lives g"
  "game_state (update_ship g) = game_state g"
  "respawn_time (update_ship g) = respawn_time g"
  "shot_manager (update_ship g) = shot_manager g"
  "asteroid_manager (update_ship g) = asteroid_manager g"
  "explosion_manager (update_ship g) = explosion_manager g"
  by (simp_all add: update_ship_def Let_def split: prod.splits)

lemma chk_collisions_level: "level (chk_collisions g) = level g"
  using pass_rel_asteroids_loop[of g 0] by (simp add: chk_collisions_def pass_rel_def)



lemma center_ship_frame:
  "level (center_ship g) = level g"
  "score (center_ship g) = score g"
  "lives (center_ship g) = lives g"
  "game_state (center_ship g) = game_state g"
  "respawn_time (center_ship g) = respawn_time g"
  "shot_manager (center_ship g) = shot_manager g"
  "asteroid_manager (center_ship g) = asteroid_manager g"
  "explosion_manager (center_ship g) = explosion_manager g"
  "is_dead (ship (center_ship g)) = is_dead (ship g)"
  by (simp_all add: center_ship_def set_position_def new_vec_def Let_def case_prod_beta)

lemma update_respawn_frame:
  "level (update_respawn g) = level g"
  "score (update_respawn g) = score g"
  "lives (update_respawn g) = lives g"
  "game_state (update_respawn g) = game_state g"
  "shot_manager (update_respawn g) = shot_manager g"
  "asteroid_manager (update_respawn g) = asteroid_manager g"
  "explosion_manager (update_respawn g) = explosion_manager g"
  by (simp_all add: update_respawn_def Let_def center_ship_frame)

lemma update_keys_frame:
  "level (update_keys keys g) = level g"
  "score (update_keys keys g) = score g"
  "lives (update_keys keys g) = lives g"
  "game_state (update_keys keys g) = game_state g"
  "respawn_time (update_keys keys g) = respawn_time g"
  "asteroid_manager (update_keys keys g) = asteroid_manager g"
  "explosion_manager (update_keys keys g) = explosion_manager g"
  "is_dead (ship (update_keys keys g)) = is_dead (ship g)"
  by (simp_all add: update_keys_def Let_def case_prod_beta set_rotate_def create_image_def)

lemma update_menu_frame:
  assumes "\<not> K_SPACE keys"
  shows "level (update_menu keys g) = level g"
    and "score (update_menu keys g) = score g"
    and "lives (update_menu keys g) = lives g"
    and "game_state (update_menu keys g) = game_state g"
    and "respawn_time (update_menu keys g) = respawn_time g"
    and "ship (update_menu keys g) = ship g"
    and "store (update_menu keys g) = store g"
    and "sound_manager (update_menu keys g) = sound_manager g"
    and "shot_manager (update_menu keys g) = shot_manager g"
    and "asteroid_manager (update_menu keys g) = asteroid_manager g"
    and "explosion_manager (update_menu keys g) = explosion_manager g"
  using assms by (simp_all add: update_menu_def)

lemma update_state_level:
  "game_state g = GAME_PLAY \<or> \<not> K_SPACE keys \<Longrightarrow> level (update_state keys g) = level g"
  by (cases "game_state g")
     (simp_all add: update_state_def update_play_def update_respawn_frame update_keys_frame
        update_menu_frame)

text \<open>
  C4. When the list of asteroids is empty after the update of the managers, the level
  is one more than before (the level is not touched earlier in the tick, unless the
  game is restarted from the menu) and the list holds exactly \<open>3 + level * 2\<close> new
  asteroids, for the new level, all of scale 1 and alive; when the list is not empty,
  the tick ends with the state the managers left.
\<close>

theorem level_up:
  "(asteroids (update_managers (chk_collisions (update_ship (update_state keys g)))) = [] \<longrightarrow>
      level (update keys g) = level (update_state keys g) + 1
      \<and> int (length (asteroids (update keys g))) = max 0 (3 + level (update keys g) * 2)
      \<and> (\<forall>a\<in>set (asteroids (update keys g)). scale a = 1 \<and> \<not> is_dead a))
   \<and> (asteroids (update_managers (chk_collisions (update_ship (update_state keys g)))) \<noteq> [] \<longrightarrow>
      update keys g = update_managers (chk_collisions (update_ship (update_state keys g))))
   \<and> (game_state g = GAME_PLAY \<or> \<not> K_SPACE keys \<longrightarrow> level (update_state keys g) = level g)"
proof -
  let ?g0 = "update_managers (chk_collisions (update_ship (update_state keys g)))"
  have l: "level ?g0 = level (update_state keys g)"
    by (simp add: update_managers_frame chk_collisions_level update_ship_frame)
  have 1: "asteroids ?g0 = [] \<longrightarrow>
      level (update keys g) = level (update_state keys g) + 1
      \<and> int (length (asteroids (update keys g))) = max 0 (3 + level (update keys g) * 2)
      \<and> (\<forall>a\<in>set (asteroids (update keys g)). scale a = 1 \<and> \<not> is_dead a)"
    using level_check_empty[of ?g0] unfolding update_def l by simp
  have 2: "asteroids ?g0 \<noteq> [] \<longrightarrow> update keys g = ?g0"
    using level_check_nonempty[of ?g0] unfolding update_def by blast
  from 1 2 update_state_level[of g keys] show ?thesis by blast
qed


text \<open>No key held, and the game as the program starts it.\<close>

definition no_keys :: Keys where
  "no_keys = \<lparr>K_SPACE = False, K_LEFT = False, K_RIGHT = False, K_UP = False, K_LCTRL = False\<rparr>"

definition demo_start :: Game where
  "demo_start =
     Game_init \<lparr>surf_w = 180, surf_h = 90\<rparr> \<lparr>surf_w = 10, surf_h = 10\<rparr>
       \<lparr>surf_w = 90, surf_h = 90\<rparr> \<lparr>surf_w = 3072, surf_h = 128\<rparr> (\<lambda>_. 0)"

lemma chk_collisions_no_asteroids: "asteroids g = [] \<Longrightarrow> chk_collisions g = g"
  by (simp add: chk_collisions_def asteroids_loop_end)

lemma update_managers_no_asteroids: "asteroids g = [] \<Longrightarrow> asteroids (update_managers g) = []"
  by (simp add: update_managers_def Manager_update_def case_prod_beta)

lemma update_managers_one_asteroid:
  "asteroids g = [a] \<Longrightarrow> \<not> is_dead a \<Longrightarrow> asteroids (update_managers g) \<noteq> []"
  by (simp add: update_managers_def Manager_update_def case_prod_beta Let_def)

lemma asteroids_loop_no_shots:
  "shots g = [] \<Longrightarrow> asteroids (asteroids_loop i g) = asteroids g"
proof (induction i g rule: asteroids_loop.induct)
  case (1 i g)
  show ?case
  proof (cases "i < length (asteroids g)")
    case True
    have "shots_loop i 0 g = g" using 1(2) by (simp add: shots_loop_end)
    with 1(1)[OF True] 1(2) show ?thesis
      by (subst asteroids_loop.simps) (simp add: True ship_check_frame)
  next
    case False
    then show ?thesis by (subst asteroids_loop.simps) simp
  qed
qed

lemma demo_start_fields:
  "asteroids demo_start = []" "level demo_start = 0" "game_state demo_start = GAME_MENU"
  by (simp_all add: demo_start_def Game_init_def new_vec_def)

theorem level_up_witness:
  "game_state demo_start = GAME_MENU \<and> level demo_start = 0
   \<and> asteroids (update_managers (chk_collisions (update_ship (update_state no_keys demo_start)))) = []
   \<and> level (update no_keys demo_start) = 1
   \<and> length (asteroids (update no_keys demo_start)) = 5
   \<and> asteroids (update_managers (chk_collisions (update_ship (update_state no_keys demo_crash)))) \<noteq> []
   \<and> level (update no_keys demo_crash) = level demo_crash"
proof -
  have k: "\<not> K_SPACE no_keys" by (simp add: no_keys_def)
  have 1: "asteroids (update_ship (update_state no_keys demo_start)) = []"
    by (simp add: update_ship_frame update_state_def update_menu_frame[OF k] demo_start_fields)
  then have 2: "asteroids (update_managers (chk_collisions (update_ship (update_state no_keys demo_start)))) = []"
    by (simp add: chk_collisions_no_asteroids update_managers_no_asteroids)
  let ?g1 = "update_ship (update_state no_keys demo_crash)"
  have 3: "game_state demo_crash = GAME_PLAY"
    by (simp add: demo_crash_def)
  have 4: "asteroids ?g1 = asteroids demo_crash" "shots ?g1 = []"
    by (simp_all add: update_ship_frame update_state_def 3 update_play_def update_respawn_frame
          update_keys_frame)
       (simp add: update_keys_def no_keys_def demo_crash_def)
  have 5: "asteroids demo_crash = [asteroids demo_crash ! 0]" "\<not> is_dead (asteroids demo_crash ! 0)"
    by (simp_all add: demo_crash_def demo_game_def Asteroid_init_fields)
  have "asteroids (chk_collisions ?g1) = [asteroids demo_crash ! 0]"
    using 5(1) by (simp add: chk_collisions_def asteroids_loop_no_shots 4)
  then have 6: "asteroids (update_managers (chk_collisions ?g1)) \<noteq> []"
    using 5(2) by (rule update_managers_one_asteroid)
  from level_up[of no_keys demo_start] level_up[of no_keys demo_crash] k 2 3 6 demo_start_fields
  show ?thesis
    by (auto simp add: update_managers_frame chk_collisions_level update_ship_frame)
qed

subsection \<open>The loss of a life\<close>

text \<open>
  What a collision pass may do to the ship and the counters that go with it: nothing,
  or the one life loss of the ship check.
\<close>

definition ship_rel :: "Game \<Rightarrow> Game \<Rightarrow> bool" where
  "ship_rel g g' \<longleftrightarrow>
     (ship g' = ship g \<and> lives g' = lives g \<and> game_state g' = game_state g
        \<and> respawn_time g' = respawn_time g)
   \<or> (\<not> is_dead (ship g) \<and> ship g' = (ship g)\<lparr>is_dead := True, thrust := False\<rparr>
        \<and> lives g' = lives g - 1
        \<and> (if lives g = 1
            then game_state g' = GAME_MENU \<and> respawn_time g' = respawn_time g
            else game_state g' = game_state g \<and> respawn_time g' = MAX_RESPAWN_TIME))"

lemma ship_rel_refl [simp]: "ship_rel g g"
  by (simp add: ship_rel_def)


lemma ship_rel_shot_check: "ship_rel g (shot_check i j g)"
  by (simp add: ship_rel_def shot_check_frame)
























text \<open>A later store: the objects that exist keep their value, new ones may be added.\<close>

definition store_le :: "Store \<Rightarrow> Store \<Rightarrow> bool" where
  "store_le h h' \<longleftrightarrow> next_ref h \<le> next_ref h' \<and> (\<forall>q<next_ref h. cells h' q = cells h q)"

lemma store_le_refl [simp]: "store_le h h"
  by (simp add: store_le_def)








































end
